theory Spec2Isabelle
  imports Main "HOL-Library.Word" "HOL-Library.AList" "HOL-Library.Char_ord"
    "HOL-Library.List_Lexorder"
begin

section \<open>Python values, exceptions and the host environment\<close>

text \<open>
  Both scripts are glue around library calls: \<^verbatim>\<open>subprocess\<close>, \<^verbatim>\<open>bytes.decode\<close>,
  \<^verbatim>\<open>re\<close>, \<^verbatim>\<open>dis\<close>, \<^verbatim>\<open>open\<close>, \<^verbatim>\<open>rpy2\<close>. The embedding keeps the control flow of the
  scripts and takes every library call as a field of an environment record, a
  deterministic function of its arguments that either raises (\<open>Inl\<close>) or returns
  (\<open>Inr\<close>). A child process is assumed to exit, so \<^verbatim>\<open>communicate\<close> returns.

  \<open>exn\<close> lists the exception classes the scripts can meet. All of them derive from
  Python's \<^verbatim>\<open>Exception\<close>, so a handler \<^verbatim>\<open>except Exception\<close> catches every value of the type;
  \<^verbatim>\<open>KeyboardInterrupt\<close> and \<^verbatim>\<open>SystemExit\<close>, which signals deliver asynchronously, are
  outside the embedding.
\<close>

type_synonym bytes = "8 word list"

datatype exn =
    OSError string
  | CalledProcessError int
  | LookupError string
  | UnicodeDecodeError string
  | ReError string
  | ValueError string
  | IndexError string
  | TypeError string
  | ImportError string
  | NameError string
  | RRuntimeError string
  | SyntaxError string

fun isinstance_RRuntimeError :: "exn \<Rightarrow> bool" where
  "isinstance_RRuntimeError (RRuntimeError msg) = True"
| "isinstance_RRuntimeError ex = False"

text \<open>\<^verbatim>\<open>cmd\<close> is "a string or list of strings" (docstring of \<^verbatim>\<open>get_command_version_string\<close>).\<close>

datatype cmd = CmdStr string | CmdList "string list"

fun isinstance_str :: "cmd \<Rightarrow> bool" where
  "isinstance_str (CmdStr s) = True"
| "isinstance_str (CmdList args) = False"

text \<open>What \<^verbatim>\<open>p.communicate()\<close> leaves behind: the two captured streams, and the exit
  status in \<^verbatim>\<open>p.returncode\<close>.\<close>

record completed =
  stdout :: bytes
  stderr :: bytes
  returncode :: int

text \<open>A match object, as far as the script reads it: the named groups of the pattern,
  each with the text it captured, or \<open>None\<close> when the group took no part in the match.\<close>

type_synonym match = "(string \<times> string option) list"

text \<open>\<^verbatim>\<open>m.group(name)\<close>: \<^verbatim>\<open>IndexError\<close> when the pattern has no group of that name.\<close>

definition group :: "match \<Rightarrow> string \<Rightarrow> exn + string option" where
  "group m name =
     (case map_of m name of
        None \<Rightarrow> Inl (IndexError ''no such group'')
      | Some g \<Rightarrow> Inr g)"

text \<open>One instruction of \<^verbatim>\<open>dis.get_instructions\<close>, and one element of an R character
  vector as \<^verbatim>\<open>rpy2\<close> hands it over.\<close>

record instruction =
  opname :: string
  argval :: string

datatype rvalue = NA_character | RString string

fun is_na :: "rvalue \<Rightarrow> bool" where
  "is_na NA_character = True"
| "is_na (RString s) = False"

text \<open>
  The library calls. A process is a handle (a natural number).
  \<^item> \<open>Popen cmd shell\<close>: \<^verbatim>\<open>subprocess.Popen(cmd, shell=shell, ...)\<close>;
  \<^item> \<open>communicate p\<close>: \<^verbatim>\<open>p.communicate()\<close> with both streams piped;
  \<^item> \<open>stdout_read p\<close>: \<^verbatim>\<open>p.stdout.read()\<close>;
  \<^item> \<open>check_output command\<close>: \<^verbatim>\<open>subprocess.check_output(command, shell=True)\<close>;
  \<^item> \<open>decode b encoding\<close>: \<^verbatim>\<open>b.decode(encoding)\<close>;
  \<^item> \<open>re_search regexp text\<close>: \<^verbatim>\<open>re.search(regexp, text)\<close>;
  \<^item> \<open>getdefaultencoding\<close>: \<^verbatim>\<open>sys.getdefaultencoding()\<close>;
  \<^item> \<open>which\<close>, \<open>expanduser\<close>: \<^verbatim>\<open>shutil.which\<close>, \<^verbatim>\<open>os.path.expanduser\<close>;
  \<^item> \<open>open_read path\<close>: \<^verbatim>\<open>open(path, mode='rt').read()\<close>;
  \<^item> \<open>get_instructions text\<close>: \<^verbatim>\<open>dis.get_instructions(text)\<close>, run to its end;
  \<^item> \<open>import_r\<close>, \<open>import_RRuntimeError\<close>: the two \<^verbatim>\<open>from rpy2... import\<close> statements,
    \<open>None\<close> when the import succeeds;
  \<^item> \<open>r_eval code\<close>: \<^verbatim>\<open>r(code)\<close>, read as a sequence of strings;
  \<^item> \<open>installed_version name\<close>:
    \<^verbatim>\<open>r('installed.packages()[,"Version"]').rx(name)[0]\<close>.
\<close>

record env =
  Popen :: "cmd \<Rightarrow> bool \<Rightarrow> exn + nat"
  communicate :: "nat \<Rightarrow> exn + completed"
  stdout_read :: "nat \<Rightarrow> exn + bytes"
  check_output :: "string \<Rightarrow> exn + bytes"
  decode :: "bytes \<Rightarrow> string \<Rightarrow> exn + string"
  re_search :: "string \<Rightarrow> string \<Rightarrow> exn + match option"
  getdefaultencoding :: string
  which :: "string \<Rightarrow> string option"
  expanduser :: "string \<Rightarrow> string"
  open_read :: "string \<Rightarrow> exn + string"
  get_instructions :: "string \<Rightarrow> exn + instruction list"
  import_r :: "exn option"
  import_RRuntimeError :: "exn option"
  r_eval :: "string \<Rightarrow> exn + string list"
  installed_version :: "string \<Rightarrow> exn + rvalue"

subsection \<open>Strings\<close>

definition backslash :: char where
  "backslash = CHR 0x5C"

definition newline :: char where
  "newline = CHR 0x0A"

definition squote :: char where
  "squote = CHR 0x27"

text \<open>A backslash escape inside a pattern: \<open>esc ''s+''\<close> is the text \<^verbatim>\<open>\s+\<close>.\<close>

definition esc :: "string \<Rightarrow> string" where
  "esc s = backslash # s"

text \<open>\<^verbatim>\<open>str.isspace\<close> on one character (code points below 256).\<close>

definition isspace :: "char \<Rightarrow> bool" where
  "isspace c = (of_char c \<in> {9, 10, 11, 12, 13, 28, 29, 30, 31, 32, 133, 160 :: nat})"

text \<open>\<^verbatim>\<open>s.strip()\<close>, \<^verbatim>\<open>s.split(sep)\<close> for a one-character separator, \<^verbatim>\<open>sep.join(xs)\<close>.\<close>

definition str_strip :: "string \<Rightarrow> string" where
  "str_strip s = rev (dropWhile isspace (rev (dropWhile isspace s)))"

fun str_split :: "char \<Rightarrow> string \<Rightarrow> string list" where
  "str_split sep [] = [[]]"
| "str_split sep (c # cs) =
     (if c = sep then [] # str_split sep cs
      else (case str_split sep cs of
              [] \<Rightarrow> [[c]]
            | w # ws \<Rightarrow> (c # w) # ws))"

fun str_join :: "string \<Rightarrow> string list \<Rightarrow> string" where
  "str_join sep [] = []"
| "str_join sep [x] = x"
| "str_join sep (x # y # ys) = x @ sep @ str_join sep (y # ys)"

section \<open>tool_versions.py\<close>

subsection \<open>get_command_version_string\<close>

text \<open>Lines 50-55: which captured stream is searched.\<close>

definition select_output :: "bool option \<Rightarrow> completed \<Rightarrow> bytes" where
  "select_output use_stderr c =
     (case use_stderr of
        None \<Rightarrow> stdout c @ stderr c
      | Some b \<Rightarrow> if b then stderr c else stdout c)"

text \<open>Line 60, \<^verbatim>\<open>prefix + m.group("version") + suffix\<close>: adding \<^verbatim>\<open>None\<close> to a string is a
  \<^verbatim>\<open>TypeError\<close>.\<close>

definition concat_version :: "string \<Rightarrow> string option \<Rightarrow> string \<Rightarrow> exn + string" where
  "concat_version prefix g suffix =
     (case g of
        None \<Rightarrow> Inl (TypeError ''can only concatenate str (not NoneType) to str'')
      | Some v \<Rightarrow> Inr (prefix @ v @ suffix))"

text \<open>Lines 56-60: decode the selected bytes, search them, read the group.\<close>

definition search_version :: "env \<Rightarrow> string \<Rightarrow> string \<Rightarrow> string \<Rightarrow> string \<Rightarrow> bytes
    \<Rightarrow> exn + string" where
  "search_version env regexp prefix suffix encoding output =
     (case decode env output encoding of
        Inl ex \<Rightarrow> Inl ex
      | Inr text \<Rightarrow>
     (case re_search env regexp text of
        Inl ex \<Rightarrow> Inl ex
      | Inr None \<Rightarrow> Inl (ValueError ''Regular expression did not match command output'')
      | Inr (Some m) \<Rightarrow>
     (case group m ''version'' of
        Inl ex \<Rightarrow> Inl ex
      | Inr g \<Rightarrow> concat_version prefix g suffix)))"

text \<open>Lines 47-60, the body of the \<^verbatim>\<open>try\<close>.\<close>

definition probe :: "env \<Rightarrow> cmd \<Rightarrow> string \<Rightarrow> string \<Rightarrow> string \<Rightarrow> bool option \<Rightarrow> string
    \<Rightarrow> exn + string" where
  "probe env cmd regexp prefix suffix use_stderr encoding =
     (let use_shell = isinstance_str cmd in
      case Popen env cmd use_shell of
        Inl ex \<Rightarrow> Inl ex
      | Inr p \<Rightarrow>
     (case communicate env p of
        Inl ex \<Rightarrow> Inl ex
      | Inr c \<Rightarrow>
          search_version env regexp prefix suffix encoding (select_output use_stderr c)))"

text \<open>Lines 61-65, the handler: \<open>Inl ex\<close> when the call raises \<open>ex\<close>, \<open>Inr None\<close> for
  Python's \<^verbatim>\<open>None\<close>, \<open>Inr (Some s)\<close> for a string.\<close>

definition on_error :: "bool \<Rightarrow> exn + string \<Rightarrow> exn + string option" where
  "on_error raise_on_error r =
     (case r of
        Inr v \<Rightarrow> Inr (Some v)
      | Inl ex \<Rightarrow> if raise_on_error then Inl ex else Inr None)"

definition get_command_version_string ::
    "env \<Rightarrow> cmd \<Rightarrow> string \<Rightarrow> string \<Rightarrow> string \<Rightarrow> bool option \<Rightarrow> string \<Rightarrow> bool
      \<Rightarrow> exn + string option" where
  "get_command_version_string env cmd regexp prefix suffix use_stderr encoding raise_on_error =
     on_error raise_on_error (probe env cmd regexp prefix suffix use_stderr encoding)"

subsection \<open>The module's top level: SOFTWARE_VERSIONS\<close>

text \<open>
  The module's namespace, as far as the top level writes and reads it. Every name is
  assigned before it is read, except \<^verbatim>\<open>RRuntimeError\<close>: an \<^verbatim>\<open>except RRuntimeError\<close> clause
  reads it, perhaps before any import has bound it.
\<close>

record namespace =
  ascp_path :: string
  SOFTWARE_VERSIONS :: "string \<rightharpoonup> string option"
  RRuntimeError_bound :: bool

text \<open>Line 67; \<^verbatim>\<open>or\<close> takes its right operand when the left one is \<^verbatim>\<open>None\<close> or empty.\<close>

definition find_ascp :: "env \<Rightarrow> string" where
  "find_ascp env =
     (case which env ''ascp'' of
        None \<Rightarrow> expanduser env ''~/.aspera/connect/bin/ascp''
      | Some path \<Rightarrow> if path = [] then expanduser env ''~/.aspera/connect/bin/ascp'' else path)"

text \<open>Lines 72-85: key, command, pattern and prefix of each probe, in the order of the
  statements.\<close>

definition tool_probes :: "string \<Rightarrow> (string \<times> cmd \<times> string \<times> string) list" where
  "tool_probes ascp =
   [(''ASCP'', CmdList [ascp, ''--version''],
       ''ascp version'' @ esc ''s+(?P<version>'' @ esc ''S+)'', ''ascp ''),
    (''BEDTOOLS'', CmdStr ''bedtools --version'',
       ''bedtools'' @ esc ''s+(?P<version>'' @ esc ''S+)'', ''bedtools ''),
    (''BOWTIE2'', CmdStr ''bowtie2 --version'',
       ''version'' @ esc ''s+(?P<version>'' @ esc ''S+)'', ''bowtie2 ''),
    (''CUFFLINKS'', CmdStr ''cufflinks --help'',
       ''cufflinks v(?P<version>'' @ esc ''S+)'', ''cufflinks ''),
    (''EPIC'', CmdStr ''epic --version'',
       ''epic'' @ esc ''s+(?P<version>'' @ esc ''S+)'', ''epic ''),
    (''FASTQ_TOOLS'', CmdStr ''fastq-sort --version'',
       ''(?P<version>'' @ esc ''d+('' @ esc ''.'' @ esc ''d+)*)'', ''fastq-tools ''),
    (''HISAT2'', CmdStr ''hisat2 --version'',
       ''version'' @ esc ''s+(?P<version>'' @ esc ''S+)'', ''hisat2 ''),
    (''IDR'', CmdStr ''idr --version'',
       ''(?P<version>'' @ esc ''d+('' @ esc ''.'' @ esc ''d+)*)'', ''IDR ''),
    (''KALLISTO'', CmdStr ''kallisto'',
       ''^kallisto'' @ esc ''s+(?P<version>'' @ esc ''S+)'', ''kallisto ''),
    (''MACS'', CmdStr ''macs2 --version'',
       ''macs2'' @ esc ''s+(?P<version>'' @ esc ''S+)'', ''macs2 ''),
    (''SALMON'', CmdStr ''salmon --version'',
       ''version'' @ esc ''s+:'' @ esc ''s+(?P<version>'' @ esc ''S+)'', ''salmon ''),
    (''SAMTOOLS'', CmdStr ''samtools'',
       ''Version:'' @ esc ''s+(?P<version>'' @ esc ''S+)'', ''samtools ''),
    (''SRATOOLKIT'', CmdStr ''fastq-dump --version'',
       '':'' @ esc ''s+(?P<version>'' @ esc ''S+)'', ''sratoolkit ''),
    (''STAR'', CmdStr ''STAR --version'',
       ''STAR_(?P<version>'' @ esc ''S+)'', ''STAR '')]"

text \<open>
  A statement of the top level takes the namespace and returns the exception it raised,
  if any, with the namespace it leaves. One probe statement is
  \<^verbatim>\<open>SOFTWARE_VERSIONS[key] = get_command_version_string(cmd, regexp, prefix=prefix)\<close>,
  the other arguments at their defaults.
\<close>

fun run_probes :: "env \<Rightarrow> (string \<times> cmd \<times> string \<times> string) list \<Rightarrow> namespace
    \<Rightarrow> exn option \<times> namespace" where
  "run_probes env [] ns = (None, ns)"
| "run_probes env ((key, cmd, regexp, prefix) # rest) ns =
     (case get_command_version_string env cmd regexp prefix [] None
             (getdefaultencoding env) False of
        Inl ex \<Rightarrow> (Some ex, ns)
      | Inr v \<Rightarrow>
          run_probes env rest (ns\<lparr>SOFTWARE_VERSIONS := (SOFTWARE_VERSIONS ns)(key \<mapsto> v)\<rparr>))"

text \<open>Lines 89-90 and 96-97: the two imports; the second binds \<^verbatim>\<open>RRuntimeError\<close>.\<close>

definition import_rpy2 :: "env \<Rightarrow> namespace \<Rightarrow> exn option \<times> namespace" where
  "import_rpy2 env ns =
     (case import_r env of
        Some ex \<Rightarrow> (Some ex, ns)
      | None \<Rightarrow>
     (case import_RRuntimeError env of
        Some ex \<Rightarrow> (Some ex, ns)
      | None \<Rightarrow> (None, ns\<lparr>RRuntimeError_bound := True\<rparr>)))"

text \<open>Lines 92-93 and 99-100: the clause \<^verbatim>\<open>except RRuntimeError\<close> looks the name up first
  (\<^verbatim>\<open>NameError\<close> when it is not bound), then handles an instance of the class and lets
  any other exception through.\<close>

definition except_RRuntimeError :: "string \<Rightarrow> exn \<Rightarrow> namespace \<Rightarrow> exn option \<times> namespace" where
  "except_RRuntimeError key ex ns =
     (if \<not> RRuntimeError_bound ns then
        (Some (NameError ''name RRuntimeError is not defined''), ns)
      else if isinstance_RRuntimeError ex then
        (None, ns\<lparr>SOFTWARE_VERSIONS := (SOFTWARE_VERSIONS ns)(key \<mapsto> None)\<rparr>)
      else (Some ex, ns))"

text \<open>Lines 88-93 and 95-100: \<^verbatim>\<open>SOFTWARE_VERSIONS[key] = prefix + ''.join(r(code))\<close> under
  the handler.\<close>

definition r_block :: "env \<Rightarrow> string \<Rightarrow> string \<Rightarrow> string \<Rightarrow> namespace \<Rightarrow> exn option \<times> namespace" where
  "r_block env key prefix code ns =
     (case import_rpy2 env ns of
        (Some ex, ns1) \<Rightarrow> except_RRuntimeError key ex ns1
      | (None, ns1) \<Rightarrow>
     (case r_eval env code of
        Inl ex \<Rightarrow> except_RRuntimeError key ex ns1
      | Inr strs \<Rightarrow>
          (None, ns1\<lparr>SOFTWARE_VERSIONS :=
                       (SOFTWARE_VERSIONS ns1)(key \<mapsto> Some (prefix @ concat strs))\<rparr>)))"

text \<open>Lines 67-100, executed in a namespace \<open>ns\<close> (empty at the first import, the one
  left by the last execution at a re-import).\<close>

definition module_exec :: "env \<Rightarrow> namespace \<Rightarrow> exn option \<times> namespace" where
  "module_exec env ns =
     (let ns1 = ns\<lparr>ascp_path := find_ascp env\<rparr>;
          ns2 = ns1\<lparr>SOFTWARE_VERSIONS := Map.empty\<rparr>
      in case run_probes env (tool_probes (ascp_path ns2)) ns2 of
        (Some ex, ns3) \<Rightarrow> (Some ex, ns3)
      | (None, ns3) \<Rightarrow>
     (case r_block env ''R'' [] ''R.version$version.string'' ns3 of
        (Some ex, ns4) \<Rightarrow> (Some ex, ns4)
      | (None, ns4) \<Rightarrow>
          r_block env ''BIOC'' ''Bioconductor ''
            ''as.character(BiocInstaller::biocVersion())'' ns4))"

subsection \<open>R_package_version\<close>

text \<open>\<^verbatim>\<open>repr\<close> of a string without quotes, backslashes or unprintable characters.\<close>

definition py_repr :: "string \<Rightarrow> string" where
  "py_repr s = squote # s @ [squote]"

text \<open>Lines 104-109, the body of the \<^verbatim>\<open>try\<close>.\<close>

definition R_package_version_body :: "env \<Rightarrow> string \<Rightarrow> exn + string" where
  "R_package_version_body env pkgname =
     (case import_r env of
        Some ex \<Rightarrow> Inl ex
      | None \<Rightarrow>
     (case import_RRuntimeError env of
        Some ex \<Rightarrow> Inl ex
      | None \<Rightarrow>
     (case installed_version env pkgname of
        Inl ex \<Rightarrow> Inl ex
      | Inr pkgversion \<Rightarrow>
          if is_na pkgversion then
            Inl (ValueError (''Could not determine package version for '' @ py_repr pkgname
                   @ ''. Maybe the package is not installed?''))
          else
            (case pkgversion of
               RString v \<Rightarrow> Inr (str_join '' '' [pkgname, v])
             | NA_character \<Rightarrow> Inl (TypeError ''sequence item 1: expected str instance'')))))"

text \<open>Lines 103 and 110-111: \<^verbatim>\<open>except Exception: return None\<close>.\<close>

definition R_package_version :: "env \<Rightarrow> string \<Rightarrow> exn + string option" where
  "R_package_version env pkgname =
     (case R_package_version_body env pkgname of
        Inl ex \<Rightarrow> Inr None
      | Inr v \<Rightarrow> Inr (Some v))"

section \<open>list-python-modules.py\<close>

text \<open>Lines 10-13, for one \<^verbatim>\<open>find\<close> command:
  \<^verbatim>\<open>check_output(command, shell=True).decode(sys.getdefaultencoding()).strip().split('\n')\<close>.\<close>

definition list_files :: "env \<Rightarrow> string \<Rightarrow> exn + string list" where
  "list_files env command =
     (case check_output env command of
        Inl ex \<Rightarrow> Inl ex
      | Inr out \<Rightarrow>
     (case decode env out (getdefaultencoding env) of
        Inl ex \<Rightarrow> Inl ex
      | Inr text \<Rightarrow> Inr (str_split newline (str_strip text))))"

definition find_python_files :: string where
  "find_python_files = '' find . -maxdepth 2 -name '' @ squote # ''*.py'' @ squote # '' ''"

definition find_snakefiles :: string where
  "find_snakefiles = '' find . -maxdepth 2 -name '' @ squote # ''*Snakefile'' @ squote # '' ''"

text \<open>Lines 16-18: the first loop appends each file's text and a newline to the
  temporary file, here the text written so far.\<close>

fun write_python_files :: "env \<Rightarrow> string list \<Rightarrow> string \<Rightarrow> exn + string" where
  "write_python_files env [] tempf = Inr tempf"
| "write_python_files env (pf # pfs) tempf =
     (case open_read env pf of
        Inl ex \<Rightarrow> Inl ex
      | Inr text \<Rightarrow> write_python_files env pfs (tempf @ text @ [newline]))"

text \<open>Lines 19-22: the second loop appends what \<^verbatim>\<open>snakemake --print-compilation\<close> prints.\<close>

fun write_snakefiles :: "env \<Rightarrow> string list \<Rightarrow> string \<Rightarrow> exn + string" where
  "write_snakefiles env [] tempf = Inr tempf"
| "write_snakefiles env (sf # sfs) tempf =
     (case Popen env (CmdList [''snakemake'', ''--print-compilation'', ''--snakefile'', sf])
             False of
        Inl ex \<Rightarrow> Inl ex
      | Inr p \<Rightarrow>
     (case stdout_read env p of
        Inl ex \<Rightarrow> Inl ex
      | Inr out \<Rightarrow>
     (case decode env out (getdefaultencoding env) of
        Inl ex \<Rightarrow> Inl ex
      | Inr text \<Rightarrow> write_snakefiles env sfs (tempf @ text @ [newline]))))"

text \<open>Lines 10-25: the combined text. The temporary file is taken as a text buffer that
  reads back what was written.\<close>

definition fulltext :: "env \<Rightarrow> exn + string" where
  "fulltext env =
     (case list_files env find_python_files of
        Inl ex \<Rightarrow> Inl ex
      | Inr python_files \<Rightarrow>
     (case list_files env find_snakefiles of
        Inl ex \<Rightarrow> Inl ex
      | Inr snakefiles \<Rightarrow>
     (case write_python_files env python_files [] of
        Inl ex \<Rightarrow> Inl ex
      | Inr tempf \<Rightarrow> write_snakefiles env snakefiles tempf)))"

text \<open>Lines 26-27: the set of the arguments of the \<^verbatim>\<open>IMPORT_NAME\<close> instructions.\<close>

definition imports_of :: "instruction list \<Rightarrow> string set" where
  "imports_of instructions =
     set (map argval (filter (\<lambda>x. opname x = ''IMPORT_NAME'') instructions))"

text \<open>The whole script; its result is the text \<^verbatim>\<open>print\<close> writes to standard output.\<close>

definition list_python_modules :: "env \<Rightarrow> exn + string" where
  "list_python_modules env =
     (case fulltext env of
        Inl ex \<Rightarrow> Inl ex
      | Inr text \<Rightarrow>
     (case get_instructions env text of
        Inl ex \<Rightarrow> Inl ex
      | Inr instructions \<Rightarrow>
          Inr (str_join [newline] (sorted_list_of_set (imports_of instructions))
                 @ [newline])))"

section \<open>A sample host\<close>

text \<open>
  A small environment on which the definitions above can be run: the \<^verbatim>\<open>ascii\<close> codec, a
  backtracking matcher for the fragment of the \<^verbatim>\<open>re\<close> syntax that the probes use, four
  programs and \<^verbatim>\<open>snakemake\<close>, two source files, and a disassembler for programs made of \<^verbatim>\<open>import name\<close> lines.
\<close>

subsection \<open>The ascii codec\<close>

definition ascii_bytes :: "string \<Rightarrow> bytes" where
  "ascii_bytes s = map of_char s"

definition sample_decode :: "bytes \<Rightarrow> string \<Rightarrow> exn + string" where
  "sample_decode b encoding =
     (if encoding \<noteq> ''ascii'' then Inl (LookupError (''unknown encoding: '' @ encoding))
      else if list_all (\<lambda>x. x < 128) b then Inr (map (\<lambda>x. char_of (unat x)) b)
      else Inl (UnicodeDecodeError ''ascii codec cannot decode: ordinal not in range(128)''))"

subsection \<open>Regular expressions\<close>

text \<open>
  The fragment: literal characters, \<^verbatim>\<open>\d\<close>, \<^verbatim>\<open>\s\<close>, \<^verbatim>\<open>\S\<close>, escaped punctuation, \<^verbatim>\<open>^\<close>,
  greedy \<^verbatim>\<open>*\<close> and \<^verbatim>\<open>+\<close>, groups \<^verbatim>\<open>(...)\<close> and named groups \<^verbatim>\<open>(?P<name>...)\<close>. A
  pattern outside the fragment is refused with \<open>ReError\<close>.
\<close>

datatype cclass = Digit | Space | NonSpace

fun in_class :: "cclass \<Rightarrow> char \<Rightarrow> bool" where
  "in_class Digit c = (48 \<le> (of_char c :: nat) \<and> (of_char c :: nat) \<le> 57)"
| "in_class Space c = isspace c"
| "in_class NonSpace c = (\<not> isspace c)"

datatype rx =
    Eps
  | Lit char
  | Cls cclass
  | Bol
  | Cat rx rx
  | Star rx
  | Plus rx
  | Grp "string option" rx

text \<open>A state of the matcher: the position in the text and the groups captured so
  far. \<open>matches r s st\<close> lists the states in which \<open>r\<close> can end when started in \<open>st\<close>,
  the preferred one first; an iteration of a repetition must consume a character.\<close>

type_synonym mstate = "nat \<times> match"

primrec star :: "(mstate \<Rightarrow> mstate list) \<Rightarrow> nat \<Rightarrow> mstate \<Rightarrow> mstate list" where
  "star f 0 st = [st]"
| "star f (Suc n) st =
     concat (map (star f n) (filter (\<lambda>st'. fst st < fst st') (f st))) @ [st]"

definition set_group :: "string option \<Rightarrow> string \<Rightarrow> match \<Rightarrow> match" where
  "set_group name text m =
     (case name of None \<Rightarrow> m | Some n \<Rightarrow> AList.update n (Some text) m)"

primrec matches :: "rx \<Rightarrow> string \<Rightarrow> mstate \<Rightarrow> mstate list" where
  "matches Eps s st = [st]"
| "matches (Lit c) s st =
     (if fst st < length s \<and> s ! fst st = c then [(Suc (fst st), snd st)] else [])"
| "matches (Cls k) s st =
     (if fst st < length s \<and> in_class k (s ! fst st) then [(Suc (fst st), snd st)] else [])"
| "matches Bol s st = (if fst st = 0 then [st] else [])"
| "matches (Cat a b) s st = concat (map (matches b s) (matches a s st))"
| "matches (Star a) s st = star (matches a s) (length s) st"
| "matches (Plus a) s st = concat (map (star (matches a s) (length s)) (matches a s st))"
| "matches (Grp name a) s st =
     map (\<lambda>st'. (fst st', set_group name (take (fst st' - fst st) (drop (fst st) s)) (snd st')))
       (matches a s st)"

primrec group_names :: "rx \<Rightarrow> string list" where
  "group_names Eps = []"
| "group_names (Lit c) = []"
| "group_names (Cls k) = []"
| "group_names Bol = []"
| "group_names (Cat a b) = group_names a @ group_names b"
| "group_names (Star a) = group_names a"
| "group_names (Plus a) = group_names a"
| "group_names (Grp name a) = (case name of None \<Rightarrow> [] | Some n \<Rightarrow> [n]) @ group_names a"

text \<open>The first match, trying the start positions from the left.\<close>

definition search :: "rx \<Rightarrow> string \<Rightarrow> match option" where
  "search r s =
     (case concat (map (\<lambda>i. matches r s (i, map (\<lambda>n. (n, None)) (group_names r)))
                    [0 ..< Suc (length s)]) of
        [] \<Rightarrow> None
      | st # _ \<Rightarrow> Some (snd st))"

text \<open>The parser, with fuel: every call consumes one unit, and \<open>compile\<close> gives enough.\<close>

definition quantified :: "rx \<Rightarrow> string \<Rightarrow> (rx \<times> string) option" where
  "quantified a s =
     (case s of
        [] \<Rightarrow> Some (a, s)
      | c # t \<Rightarrow>
          if c = CHR ''*'' \<or> c = CHR ''+'' then
            (if t \<noteq> [] \<and> hd t \<in> set ''*+?{'' then None
             else Some (if c = CHR ''*'' then Star a else Plus a, t))
          else if c = CHR ''?'' \<or> c = CHR ''{'' then None
          else Some (a, s))"

definition escape :: "char \<Rightarrow> rx option" where
  "escape e =
     (if e = CHR ''d'' then Some (Cls Digit)
      else if e = CHR ''s'' then Some (Cls Space)
      else if e = CHR ''S'' then Some (Cls NonSpace)
      else if e \<in> set ''.^$*+?{}[]()|'' \<or> e = backslash then Some (Lit e)
      else None)"

definition group_header :: "string \<Rightarrow> (string option \<times> string) option" where
  "group_header s =
     (if take 3 s = ''?P<'' then
        (let name = takeWhile (\<lambda>c. c \<noteq> CHR ''>'') (drop 3 s);
             rest = dropWhile (\<lambda>c. c \<noteq> CHR ''>'') (drop 3 s)
         in if name = [] \<or> rest = [] then None else Some (Some name, tl rest))
      else if take 1 s = ''?'' then None
      else Some (None, s))"

fun parse_seq :: "nat \<Rightarrow> string \<Rightarrow> (rx \<times> string) option"
  and parse_atom :: "nat \<Rightarrow> string \<Rightarrow> (rx \<times> string) option" where
  "parse_seq 0 s = None"
| "parse_seq (Suc n) s =
     (if s = [] \<or> hd s = CHR '')'' then Some (Eps, s)
      else case parse_atom n s of
        None \<Rightarrow> None
      | Some (a, s1) \<Rightarrow>
     (case quantified a s1 of
        None \<Rightarrow> None
      | Some (q, s2) \<Rightarrow>
     (case parse_seq n s2 of
        None \<Rightarrow> None
      | Some (b, s3) \<Rightarrow> Some (Cat q b, s3))))"
| "parse_atom 0 s = None"
| "parse_atom (Suc n) s =
     (case s of
        [] \<Rightarrow> None
      | c # t \<Rightarrow>
          if c = CHR ''('' then
            (case group_header t of
               None \<Rightarrow> None
             | Some (name, t1) \<Rightarrow>
            (case parse_seq n t1 of
               None \<Rightarrow> None
             | Some (r, t2) \<Rightarrow>
                 if t2 \<noteq> [] \<and> hd t2 = CHR '')'' then Some (Grp name r, tl t2) else None))
          else if c = backslash then
            (case t of
               [] \<Rightarrow> None
             | e # t1 \<Rightarrow> (case escape e of None \<Rightarrow> None | Some r \<Rightarrow> Some (r, t1)))
          else if c = CHR ''^'' then Some (Bol, t)
          else if c \<in> set ''.$*+?{}[]|)'' then None
          else Some (Lit c, t))"

definition compile :: "string \<Rightarrow> rx option" where
  "compile pat =
     (case parse_seq (Suc (2 * length pat)) pat of
        Some (r, []) \<Rightarrow> Some r
      | _ \<Rightarrow> None)"

definition sample_re_search :: "string \<Rightarrow> string \<Rightarrow> exn + match option" where
  "sample_re_search regexp text =
     (case compile regexp of
        None \<Rightarrow> Inl (ReError ''unsupported pattern'')
      | Some r \<Rightarrow> Inr (search r text))"

subsection \<open>Programs and files\<close>

text \<open>
  Process handles: 1 is \<^verbatim>\<open>tool\<close>, which prints its version on standard output; 2 is
  \<^verbatim>\<open>errtool\<close>, which prints it on standard error; 3 is \<^verbatim>\<open>failtool\<close>, which prints it and
  exits with status 1; 4 is \<^verbatim>\<open>snakemake\<close> compiling \<^verbatim>\<open>./Snakefile\<close>, 5 is \<^verbatim>\<open>snakemake\<close> given
  any other file; 6 is \<^verbatim>\<open>bintool\<close>, which prints two bytes that are not ascii; 0 is the
  shell reporting a command it does not know.
\<close>

definition sample_program :: "string list \<Rightarrow> nat option" where
  "sample_program argv =
     (case argv of
        [] \<Rightarrow> None
      | prog # args \<Rightarrow>
          if prog = ''tool'' then Some 1
          else if prog = ''errtool'' then Some 2
          else if prog = ''failtool'' then Some 3
          else if prog = ''bintool'' then Some 6
          else if prog = ''snakemake'' then
            (if args = [''--print-compilation'', ''--snakefile'', ''./Snakefile''] then Some 4
             else Some 5)
          else None)"

definition sample_Popen :: "cmd \<Rightarrow> bool \<Rightarrow> exn + nat" where
  "sample_Popen cmd shell =
     (let argv = (case cmd of
                    CmdStr s \<Rightarrow>
                      if shell then filter (\<lambda>w. w \<noteq> []) (str_split (CHR '' '') s) else [s]
                  | CmdList args \<Rightarrow> args)
      in case sample_program argv of
        Some p \<Rightarrow> Inr p
      | None \<Rightarrow>
          if shell then Inr 0 else Inl (OSError ''[Errno 2] No such file or directory''))"

definition sample_communicate :: "nat \<Rightarrow> exn + completed" where
  "sample_communicate p =
     (if p = 0 then
        Inr \<lparr>stdout = [], stderr = ascii_bytes ''sh: command not found'' @ [10],
             returncode = 127\<rparr>
      else if p = 1 then
        Inr \<lparr>stdout = ascii_bytes ''tool v2.3.1'' @ [10], stderr = [], returncode = 0\<rparr>
      else if p = 2 then
        Inr \<lparr>stdout = [], stderr = ascii_bytes ''errtool v1.0.4'' @ [10], returncode = 0\<rparr>
      else if p = 3 then
        Inr \<lparr>stdout = ascii_bytes ''failtool v0.9'' @ [10],
             stderr = ascii_bytes ''failtool: missing operand'' @ [10], returncode = 1\<rparr>
      else if p = 4 then
        Inr \<lparr>stdout = ascii_bytes ''import sys'' @ [10], stderr = [], returncode = 0\<rparr>
      else if p = 5 then
        Inr \<lparr>stdout = [], stderr = ascii_bytes ''Error: Snakefile not found'' @ [10],
             returncode = 1\<rparr>
      else if p = 6 then
        Inr \<lparr>stdout = [255, 254], stderr = [], returncode = 0\<rparr>
      else Inl (OSError ''[Errno 3] No such process''))"

definition sample_stdout_read :: "nat \<Rightarrow> exn + bytes" where
  "sample_stdout_read p =
     (case sample_communicate p of
        Inl ex \<Rightarrow> Inl ex
      | Inr c \<Rightarrow> Inr (stdout c))"

definition sample_check_output :: "string \<Rightarrow> exn + bytes" where
  "sample_check_output command =
     (if command = find_python_files then
        Inr (ascii_bytes ''./a.py'' @ [10] @ ascii_bytes ''./b.py'' @ [10])
      else if command = find_snakefiles then Inr (ascii_bytes ''./Snakefile'' @ [10])
      else Inl (CalledProcessError 127))"

definition sample_open_read :: "string \<Rightarrow> exn + string" where
  "sample_open_read path =
     (if path = ''./a.py'' then Inr (''import os'' @ newline # ''import sys'' @ [newline])
      else if path = ''./b.py'' then Inr (''import os'' @ [newline])
      else Inl (OSError (''[Errno 2] No such file or directory: '' @ py_repr path)))"

text \<open>The disassembler: each \<^verbatim>\<open>import name\<close> line gives the four instructions CPython
  compiles it to, an empty line gives none, any other line is a syntax error.\<close>

fun disassemble :: "string list \<Rightarrow> exn + instruction list" where
  "disassemble [] =
     Inr [\<lparr>opname = ''LOAD_CONST'', argval = ''None''\<rparr>,
          \<lparr>opname = ''RETURN_VALUE'', argval = ''None''\<rparr>]"
| "disassemble (line # rest) =
     (if line = [] then disassemble rest
      else if take 7 line = ''import '' \<and> drop 7 line \<noteq> []
              \<and> list_all (\<lambda>c. \<not> isspace c) (drop 7 line) then
        (case disassemble rest of
           Inl ex \<Rightarrow> Inl ex
         | Inr instructions \<Rightarrow>
             Inr ([\<lparr>opname = ''LOAD_CONST'', argval = ''0''\<rparr>,
                   \<lparr>opname = ''LOAD_CONST'', argval = ''None''\<rparr>,
                   \<lparr>opname = ''IMPORT_NAME'', argval = drop 7 line\<rparr>,
                   \<lparr>opname = ''STORE_NAME'', argval = drop 7 line\<rparr>] @ instructions))
      else Inl (SyntaxError ''invalid syntax''))"

definition sample_get_instructions :: "string \<Rightarrow> exn + instruction list" where
  "sample_get_instructions text = disassemble (str_split newline text)"

text \<open>R is installed with one package, \<^verbatim>\<open>limma\<close>; \<^verbatim>\<open>BiocInstaller\<close> is not.\<close>

definition sample_r_eval :: "string \<Rightarrow> exn + string list" where
  "sample_r_eval code =
     (if code = ''R.version$version.string'' then Inr [''R version 3.3.1 (2016-06-21)'']
      else Inl (RRuntimeError ''Error in loadNamespace(name)''))"

definition sample_installed_version :: "string \<Rightarrow> exn + rvalue" where
  "sample_installed_version name =
     (if name = ''limma'' then Inr (RString ''3.30.0'') else Inr NA_character)"

definition sample_host :: env where
  "sample_host =
     \<lparr>Popen = sample_Popen,
      communicate = sample_communicate,
      stdout_read = sample_stdout_read,
      check_output = sample_check_output,
      decode = sample_decode,
      re_search = sample_re_search,
      getdefaultencoding = ''ascii'',
      which = (\<lambda>name. None),
      expanduser = (\<lambda>path. ''/home/user'' @ tl path),
      open_read = sample_open_read,
      get_instructions = sample_get_instructions,
      import_r = None,
      import_RRuntimeError = None,
      r_eval = sample_r_eval,
      installed_version = sample_installed_version\<rparr>"

text \<open>The same host in a directory that holds no source and no workflow file:
  \<^verbatim>\<open>find\<close> prints nothing and exits with status 0.\<close>

definition empty_directory_host :: env where
  "empty_directory_host =
     sample_host\<lparr>check_output := \<lambda>command.
        if command = find_python_files \<or> command = find_snakefiles then Inr []
        else Inl (CalledProcessError 127)\<rparr>"

text \<open>The pattern of the specification's example, \<^verbatim>\<open>v(?P<version>(\d+\.)*\d+)\<close>.\<close>

definition example_pattern :: string where
  "example_pattern = ''v(?P<version>('' @ esc ''d+'' @ esc ''.)*'' @ esc ''d+)''"

section \<open>Properties of get_command_version_string\<close>

subsection \<open>The handler and the steps of the body\<close>

lemma on_error_Inl: "on_error roe (Inl ex) = (if roe then Inl ex else Inr None)"
  by (simp add: on_error_def)

lemma on_error_Inr: "on_error roe (Inr v) = Inr (Some v)"
  by (simp add: on_error_def)

lemma on_error_False: "\<exists>r. on_error False x = Inr r"
  by (cases x) (simp_all add: on_error_def)

lemma probe_launched:
  "Popen env cmd (isinstance_str cmd) = Inr p \<Longrightarrow> communicate env p = Inr c \<Longrightarrow>
   probe env cmd regexp prefix suffix use_stderr encoding =
     search_version env regexp prefix suffix encoding (select_output use_stderr c)"
  by (simp add: probe_def)

lemma probe_launch_failed:
  "Popen env cmd (isinstance_str cmd) = Inl ex \<Longrightarrow>
   probe env cmd regexp prefix suffix use_stderr encoding = Inl ex"
  by (simp add: probe_def)

lemma search_version_decode_failed:
  "decode env output encoding = Inl ex \<Longrightarrow>
   search_version env regexp prefix suffix encoding output = Inl ex"
  by (simp add: search_version_def)

lemma search_version_no_match:
  "decode env output encoding = Inr text \<Longrightarrow> re_search env regexp text = Inr None \<Longrightarrow>
   search_version env regexp prefix suffix encoding output =
     Inl (ValueError ''Regular expression did not match command output'')"
  by (simp add: search_version_def)

lemma search_version_no_group:
  "decode env output encoding = Inr text \<Longrightarrow> re_search env regexp text = Inr (Some m) \<Longrightarrow>
   map_of m ''version'' = None \<Longrightarrow>
   search_version env regexp prefix suffix encoding output = Inl (IndexError ''no such group'')"
  by (simp add: search_version_def group_def)

lemma search_version_found:
  "decode env output encoding = Inr text \<Longrightarrow> re_search env regexp text = Inr (Some m) \<Longrightarrow>
   map_of m ''version'' = Some (Some v) \<Longrightarrow>
   search_version env regexp prefix suffix encoding output = Inr (prefix @ v @ suffix)"
  by (simp add: search_version_def group_def concat_version_def)

lemma probe_found:
  "Popen env cmd (isinstance_str cmd) = Inr p \<Longrightarrow> communicate env p = Inr c \<Longrightarrow>
   decode env (select_output use_stderr c) encoding = Inr text \<Longrightarrow>
   re_search env regexp text = Inr (Some m) \<Longrightarrow> map_of m ''version'' = Some (Some v) \<Longrightarrow>
   probe env cmd regexp prefix suffix use_stderr encoding = Inr (prefix @ v @ suffix)"
  by (simp add: probe_launched search_version_found)

subsection \<open>Errors\<close>

text \<open>
  C1: whatever error the probing raises, \<^verbatim>\<open>get_command_version_string\<close> returns None
  when \<^verbatim>\<open>raise_on_error\<close> is false and raises that same exception when it is true. The
  first conjunct says it for any exception of the body; the others for the failures the
  specification lists: the process cannot be launched, the selected output cannot be
  decoded, the pattern does not match the decoded text (a \<^verbatim>\<open>ValueError\<close>), the pattern has
  no group named \<^verbatim>\<open>version\<close> (the \<^verbatim>\<open>IndexError\<close> of \<^verbatim>\<open>m.group\<close>).
\<close>

theorem errors_suppressed_or_reraised:
  "(probe env cmd regexp prefix suffix use_stderr encoding = Inl ex \<longrightarrow>
      get_command_version_string env cmd regexp prefix suffix use_stderr encoding raise_on_error
        = (if raise_on_error then Inl ex else Inr None))
   \<and> (Popen env cmd (isinstance_str cmd) = Inl ex \<longrightarrow>
      get_command_version_string env cmd regexp prefix suffix use_stderr encoding raise_on_error
        = (if raise_on_error then Inl ex else Inr None))
   \<and> (Popen env cmd (isinstance_str cmd) = Inr p \<and> communicate env p = Inr c
        \<and> decode env (select_output use_stderr c) encoding = Inl ex \<longrightarrow>
      get_command_version_string env cmd regexp prefix suffix use_stderr encoding raise_on_error
        = (if raise_on_error then Inl ex else Inr None))
   \<and> (Popen env cmd (isinstance_str cmd) = Inr p \<and> communicate env p = Inr c
        \<and> decode env (select_output use_stderr c) encoding = Inr text
        \<and> re_search env regexp text = Inr None \<longrightarrow>
      get_command_version_string env cmd regexp prefix suffix use_stderr encoding raise_on_error
        = (if raise_on_error
           then Inl (ValueError ''Regular expression did not match command output'')
           else Inr None))
   \<and> (Popen env cmd (isinstance_str cmd) = Inr p \<and> communicate env p = Inr c
        \<and> decode env (select_output use_stderr c) encoding = Inr text
        \<and> re_search env regexp text = Inr (Some m) \<and> map_of m ''version'' = None \<longrightarrow>
      get_command_version_string env cmd regexp prefix suffix use_stderr encoding raise_on_error
        = (if raise_on_error then Inl (IndexError ''no such group'') else Inr None))"
  unfolding get_command_version_string_def
  by (simp add: on_error_Inl probe_launch_failed probe_launched search_version_decode_failed
        search_version_no_match search_version_no_group)

text \<open>On the sample host: a program that does not exist, one that prints bytes outside
  ascii, a pattern that does not match, a pattern without the named group.\<close>

theorem errors_suppressed_or_reraised_witness:
  "get_command_version_string sample_host (CmdList [''nosuch'', ''--version'']) example_pattern
       [] [] None ''ascii'' True = Inl (OSError ''[Errno 2] No such file or directory'')
   \<and> get_command_version_string sample_host (CmdList [''nosuch'', ''--version''])
       example_pattern [] [] None ''ascii'' False = Inr None
   \<and> get_command_version_string sample_host (CmdStr ''bintool'') example_pattern
       [] [] None ''ascii'' True
       = Inl (UnicodeDecodeError ''ascii codec cannot decode: ordinal not in range(128)'')
   \<and> get_command_version_string sample_host (CmdStr ''bintool'') example_pattern
       [] [] None ''ascii'' False = Inr None
   \<and> get_command_version_string sample_host (CmdStr ''tool --version'') ''release''
       [] [] None ''ascii'' True
       = Inl (ValueError ''Regular expression did not match command output'')
   \<and> get_command_version_string sample_host (CmdStr ''tool --version'') ''release''
       [] [] None ''ascii'' False = Inr None
   \<and> get_command_version_string sample_host (CmdStr ''tool --version'') ''tool (v)''
       [] [] None ''ascii'' True = Inl (IndexError ''no such group'')
   \<and> get_command_version_string sample_host (CmdStr ''tool --version'') ''tool (v)''
       [] [] None ''ascii'' False = Inr None"
proof -
  let ?tool = "\<lparr>stdout = ascii_bytes ''tool v2.3.1'' @ [10], stderr = [], returncode = 0\<rparr>"
  let ?bin = "\<lparr>stdout = [255, 254], stderr = [], returncode = 0\<rparr>"
  have no_launch: "Popen sample_host (CmdList [''nosuch'', ''--version''])
      (isinstance_str (CmdList [''nosuch'', ''--version'']))
      = Inl (OSError ''[Errno 2] No such file or directory'')"
    by code_simp
  have bin: "Popen sample_host (CmdStr ''bintool'') (isinstance_str (CmdStr ''bintool'')) = Inr 6
      \<and> communicate sample_host 6 = Inr ?bin
      \<and> decode sample_host (select_output None ?bin) ''ascii''
        = Inl (UnicodeDecodeError ''ascii codec cannot decode: ordinal not in range(128)'')"
    by code_simp
  have tool: "Popen sample_host (CmdStr ''tool --version'')
      (isinstance_str (CmdStr ''tool --version'')) = Inr 1
      \<and> communicate sample_host 1 = Inr ?tool
      \<and> decode sample_host (select_output None ?tool) ''ascii''
        = Inr (''tool v2.3.1'' @ [newline])"
    by code_simp
  have no_match: "re_search sample_host ''release'' (''tool v2.3.1'' @ [newline]) = Inr None"
    by code_simp
  have no_group: "re_search sample_host ''tool (v)'' (''tool v2.3.1'' @ [newline])
      = Inr (Some []) \<and> map_of ([] :: match) ''version'' = None"
    by code_simp
  note cases = errors_suppressed_or_reraised [THEN conjunct2]
  note launch_case = cases [THEN conjunct1, rule_format, OF no_launch]
  note decode_case = cases [THEN conjunct2, THEN conjunct1, rule_format, OF bin]
  note match_case = cases [THEN conjunct2, THEN conjunct2, THEN conjunct1, rule_format,
      OF conjI [OF tool [THEN conjunct1]
        conjI [OF tool [THEN conjunct2, THEN conjunct1]
          conjI [OF tool [THEN conjunct2, THEN conjunct2] no_match]]]]
  note group_case = cases [THEN conjunct2, THEN conjunct2, THEN conjunct2, rule_format,
      OF conjI [OF tool [THEN conjunct1]
        conjI [OF tool [THEN conjunct2, THEN conjunct1]
          conjI [OF tool [THEN conjunct2, THEN conjunct2] no_group]]]]
  show ?thesis
    using launch_case [of example_pattern "[]" "[]" None "''ascii''" True]
      launch_case [of example_pattern "[]" "[]" None "''ascii''" False]
      decode_case [of example_pattern "[]" "[]" True]
      decode_case [of example_pattern "[]" "[]" False]
      match_case [of "[]" "[]" True] match_case [of "[]" "[]" False]
      group_case [of "[]" "[]" True] group_case [of "[]" "[]" False]
    by simp
qed

text \<open>
  C10: with \<^verbatim>\<open>raise_on_error\<close> at its default, false, \<^verbatim>\<open>get_command_version_string\<close> never
  raises, whatever its other arguments and whatever the library calls do: its result is
  \<open>Inr r\<close>, where \<open>r\<close> is a string or None.
\<close>

theorem suppressed_never_raises:
  "\<exists>r. get_command_version_string env cmd regexp prefix suffix use_stderr encoding False = Inr r"
  unfolding get_command_version_string_def by (rule on_error_False)

subsection \<open>The version string\<close>

text \<open>
  C2: when the process runs, its selected output decodes to a text in which the pattern
  matches, and the group \<^verbatim>\<open>version\<close> of the match captured \<open>v\<close>, the call returns exactly
  \<^verbatim>\<open>prefix + v + suffix\<close>.
\<close>

theorem version_string_returned:
  assumes "Popen env cmd (isinstance_str cmd) = Inr p"
    and "communicate env p = Inr c"
    and "decode env (select_output use_stderr c) encoding = Inr text"
    and "re_search env regexp text = Inr (Some m)"
    and "map_of m ''version'' = Some (Some v)"
  shows "get_command_version_string env cmd regexp prefix suffix use_stderr encoding
           raise_on_error = Inr (Some (prefix @ v @ suffix))"
  using assms by (simp add: get_command_version_string_def probe_found on_error_Inr)

text \<open>The example of the specification: \<^verbatim>\<open>tool v2.3.1\<close> on standard output, the pattern
  \<^verbatim>\<open>v(?P<version>(\d+\.)*\d+)\<close> and the prefix \<^verbatim>\<open>tool \<close> give \<^verbatim>\<open>tool 2.3.1\<close>.\<close>

theorem version_string_returned_witness:
  "Popen sample_host (CmdStr ''tool --version'') (isinstance_str (CmdStr ''tool --version''))
     = Inr 1
   \<and> communicate sample_host 1
     = Inr \<lparr>stdout = ascii_bytes ''tool v2.3.1'' @ [10], stderr = [], returncode = 0\<rparr>
   \<and> decode sample_host (select_output None
        \<lparr>stdout = ascii_bytes ''tool v2.3.1'' @ [10], stderr = [], returncode = 0\<rparr>) ''ascii''
     = Inr (''tool v2.3.1'' @ [newline])
   \<and> re_search sample_host example_pattern (''tool v2.3.1'' @ [newline])
     = Inr (Some [(''version'', Some ''2.3.1'')])
   \<and> get_command_version_string sample_host (CmdStr ''tool --version'') example_pattern
        ''tool '' [] None ''ascii'' False = Inr (Some ''tool 2.3.1'')"
proof -
  let ?c = "\<lparr>stdout = ascii_bytes ''tool v2.3.1'' @ [10], stderr = [], returncode = 0\<rparr>"
  have launch: "Popen sample_host (CmdStr ''tool --version'')
      (isinstance_str (CmdStr ''tool --version'')) = Inr 1"
    by code_simp
  have run: "communicate sample_host 1 = Inr ?c"
    by code_simp
  have decoded: "decode sample_host (select_output None ?c) ''ascii''
      = Inr (''tool v2.3.1'' @ [newline])"
    by code_simp
  have found: "re_search sample_host example_pattern (''tool v2.3.1'' @ [newline])
      = Inr (Some [(''version'', Some ''2.3.1'')])"
    by code_simp
  have version: "map_of [(''version'', Some ''2.3.1'')] ''version'' = Some (Some ''2.3.1'')"
    by simp
  from version_string_returned [OF launch run decoded found version, of "''tool ''" "[]" False]
  have "get_command_version_string sample_host (CmdStr ''tool --version'') example_pattern
      ''tool '' [] None ''ascii'' False = Inr (Some ''tool 2.3.1'')"
    by simp
  with launch run decoded found show ?thesis by blast
qed

subsection \<open>The stream that is searched\<close>

text \<open>
  C3: \<^verbatim>\<open>use_stderr\<close> selects the text that is searched. Once the process has run, the call
  is the handler applied to the search of standard output followed by standard error
  when \<^verbatim>\<open>use_stderr\<close> is None, of standard error alone when it is true, of standard output
  alone when it is false. So, with \<^verbatim>\<open>use_stderr\<close> false (and \<^verbatim>\<open>raise_on_error\<close> false), when
  the pattern does not match the text of standard output the call returns None, whatever
  standard error holds.
\<close>

theorem stream_selected_by_use_stderr:
  assumes "Popen env cmd (isinstance_str cmd) = Inr p"
    and "communicate env p = Inr c"
  shows "get_command_version_string env cmd regexp prefix suffix None encoding raise_on_error
           = on_error raise_on_error
               (search_version env regexp prefix suffix encoding (stdout c @ stderr c))
       \<and> get_command_version_string env cmd regexp prefix suffix (Some True) encoding
           raise_on_error
           = on_error raise_on_error
               (search_version env regexp prefix suffix encoding (stderr c))
       \<and> get_command_version_string env cmd regexp prefix suffix (Some False) encoding
           raise_on_error
           = on_error raise_on_error
               (search_version env regexp prefix suffix encoding (stdout c))
       \<and> (decode env (stdout c) encoding = Inr text \<and> re_search env regexp text = Inr None
            \<longrightarrow> get_command_version_string env cmd regexp prefix suffix (Some False) encoding
                  False = Inr None)"
  using assms
  by (simp add: get_command_version_string_def probe_launched select_output_def
        search_version_no_match on_error_Inl)

text \<open>\<^verbatim>\<open>errtool\<close> prints its version on standard error only: found with \<^verbatim>\<open>use_stderr\<close> None
  or true, not found with \<^verbatim>\<open>use_stderr\<close> false.\<close>

theorem stream_selected_by_use_stderr_witness:
  "get_command_version_string sample_host (CmdStr ''errtool --version'') example_pattern
       ''errtool '' [] None ''ascii'' False = Inr (Some ''errtool 1.0.4'')
   \<and> get_command_version_string sample_host (CmdStr ''errtool --version'') example_pattern
       ''errtool '' [] (Some True) ''ascii'' False = Inr (Some ''errtool 1.0.4'')
   \<and> get_command_version_string sample_host (CmdStr ''errtool --version'') example_pattern
       ''errtool '' [] (Some False) ''ascii'' False = Inr None"
proof -
  let ?c = "\<lparr>stdout = [], stderr = ascii_bytes ''errtool v1.0.4'' @ [10], returncode = 0\<rparr>"
  have launch: "Popen sample_host (CmdStr ''errtool --version'')
      (isinstance_str (CmdStr ''errtool --version'')) = Inr 2"
    by code_simp
  have run: "communicate sample_host 2 = Inr ?c"
    by code_simp
  have on_stderr: "search_version sample_host example_pattern ''errtool '' [] ''ascii''
      (stderr ?c) = Inr ''errtool 1.0.4''"
    by code_simp
  have on_stdout: "decode sample_host (stdout ?c) ''ascii'' = Inr []
      \<and> re_search sample_host example_pattern [] = Inr None"
    by code_simp
  note sel = stream_selected_by_use_stderr [OF launch run, of example_pattern "''errtool ''" "[]"
      "''ascii''" False "[]"]
  have both: "get_command_version_string sample_host (CmdStr ''errtool --version'')
      example_pattern ''errtool '' [] None ''ascii'' False = Inr (Some ''errtool 1.0.4'')"
    using sel [THEN conjunct1] on_stderr by (simp add: on_error_Inr)
  have only_stderr: "get_command_version_string sample_host (CmdStr ''errtool --version'')
      example_pattern ''errtool '' [] (Some True) ''ascii'' False = Inr (Some ''errtool 1.0.4'')"
    using sel [THEN conjunct2, THEN conjunct1] on_stderr by (simp add: on_error_Inr)
  have only_stdout: "get_command_version_string sample_host (CmdStr ''errtool --version'')
      example_pattern ''errtool '' [] (Some False) ''ascii'' False = Inr None"
    using sel [THEN conjunct2, THEN conjunct2, THEN conjunct2] on_stdout by simp
  from both only_stderr only_stdout show ?thesis
    by blast
qed

subsection \<open>The exit status\<close>

text \<open>
  C4: the result does not depend on the exit status of the process. Replacing the status
  that \<^verbatim>\<open>communicate\<close> leaves, in any way, while the captured streams stay the same, changes
  nothing in the result; and a process that exits with a status other than 0 and prints a
  version the pattern matches gives the version string, not None.
\<close>

theorem exit_status_ignored:
  "get_command_version_string
       (env\<lparr>communicate := \<lambda>p. case communicate env p of
                                   Inl ex \<Rightarrow> Inl ex
                                 | Inr c \<Rightarrow> Inr (c\<lparr>returncode := status p\<rparr>)\<rparr>)
       cmd regexp prefix suffix use_stderr encoding raise_on_error
     = get_command_version_string env cmd regexp prefix suffix use_stderr encoding raise_on_error
   \<and> (Popen env cmd (isinstance_str cmd) = Inr p \<and> communicate env p = Inr c
        \<and> returncode c \<noteq> 0
        \<and> decode env (select_output use_stderr c) encoding = Inr decoded
        \<and> re_search env regexp decoded = Inr (Some m)
        \<and> map_of m ''version'' = Some (Some v) \<longrightarrow>
      get_command_version_string env cmd regexp prefix suffix use_stderr encoding raise_on_error
        = Inr (Some (prefix @ v @ suffix)))"
proof (intro conjI impI)
  let ?env' = "env\<lparr>communicate := \<lambda>p. case communicate env p of
                                   Inl ex \<Rightarrow> Inl ex
                                 | Inr c \<Rightarrow> Inr (c\<lparr>returncode := status p\<rparr>)\<rparr>"
  have same_search: "search_version ?env' regexp prefix suffix encoding selected
      = search_version env regexp prefix suffix encoding selected" for selected
    by (simp add: search_version_def split: sum.split)
  have "probe ?env' cmd regexp prefix suffix use_stderr encoding
      = probe env cmd regexp prefix suffix use_stderr encoding"
    by (simp add: probe_def same_search select_output_def split: sum.split option.split)
  then show "get_command_version_string ?env' cmd regexp prefix suffix use_stderr encoding
      raise_on_error
      = get_command_version_string env cmd regexp prefix suffix use_stderr encoding raise_on_error"
    by (simp add: get_command_version_string_def)
next
  assume "Popen env cmd (isinstance_str cmd) = Inr p \<and> communicate env p = Inr c
        \<and> returncode c \<noteq> 0
        \<and> decode env (select_output use_stderr c) encoding = Inr decoded
        \<and> re_search env regexp decoded = Inr (Some m)
        \<and> map_of m ''version'' = Some (Some v)"
  then show "get_command_version_string env cmd regexp prefix suffix use_stderr encoding
      raise_on_error = Inr (Some (prefix @ v @ suffix))"
    by (simp add: get_command_version_string_def probe_found on_error_Inr)
qed

text \<open>\<^verbatim>\<open>failtool\<close> exits with status 1 and prints its version.\<close>

theorem exit_status_ignored_witness:
  "communicate sample_host 3
     = Inr \<lparr>stdout = ascii_bytes ''failtool v0.9'' @ [10],
            stderr = ascii_bytes ''failtool: missing operand'' @ [10], returncode = 1\<rparr>
   \<and> get_command_version_string sample_host (CmdStr ''failtool --version'') example_pattern
       ''failtool '' [] None ''ascii'' False = Inr (Some ''failtool 0.9'')
   \<and> get_command_version_string
       (sample_host\<lparr>communicate := \<lambda>p. case communicate sample_host p of
                                   Inl ex \<Rightarrow> Inl ex
                                 | Inr c \<Rightarrow> Inr (c\<lparr>returncode := 0\<rparr>)\<rparr>)
       (CmdStr ''failtool --version'') example_pattern ''failtool '' [] None ''ascii'' False
       = Inr (Some ''failtool 0.9'')"
proof -
  let ?c = "\<lparr>stdout = ascii_bytes ''failtool v0.9'' @ [10],
            stderr = ascii_bytes ''failtool: missing operand'' @ [10], returncode = 1\<rparr>"
  have run: "Popen sample_host (CmdStr ''failtool --version'')
      (isinstance_str (CmdStr ''failtool --version'')) = Inr 3
      \<and> communicate sample_host 3 = Inr ?c \<and> returncode ?c \<noteq> 0"
    by code_simp
  have found: "decode sample_host (select_output None ?c) ''ascii''
      = Inr (''failtool v0.9'' @ newline # ''failtool: missing operand'' @ [newline])
      \<and> re_search sample_host example_pattern
          (''failtool v0.9'' @ newline # ''failtool: missing operand'' @ [newline])
        = Inr (Some [(''version'', Some ''0.9'')])
      \<and> map_of [(''version'', Some ''0.9'')] ''version'' = Some (Some ''0.9'')"
    by code_simp
  note ignored = exit_status_ignored [where env = sample_host and status = "\<lambda>p. 0"
      and cmd = "CmdStr ''failtool --version''" and regexp = example_pattern
      and prefix = "''failtool ''" and suffix = "[]" and use_stderr = None
      and encoding = "''ascii''" and raise_on_error = False and p = 3 and c = ?c
      and decoded = "''failtool v0.9'' @ newline # ''failtool: missing operand'' @ [newline]"
      and m = "[(''version'', Some ''0.9'')]" and v = "''0.9''"]
  from ignored run found show ?thesis
    by simp
qed

subsection \<open>The invocation mode\<close>

lemma probe_Popen_cong:
  "launch cmd (isinstance_str cmd) = Popen env cmd (isinstance_str cmd) \<Longrightarrow>
   probe (env\<lparr>Popen := launch\<rparr>) cmd regexp prefix suffix use_stderr encoding
     = probe env cmd regexp prefix suffix use_stderr encoding"
  by (simp add: probe_def search_version_def split: sum.split)

text \<open>
  C9: the representation of \<^verbatim>\<open>cmd\<close> selects the invocation mode. For a string the only
  launch is \<^verbatim>\<open>Popen(cmd, shell=True)\<close>: the result is the same under any other behaviour of
  \<^verbatim>\<open>Popen\<close> that agrees on this call, and a failure of this call is what the function
  raises when asked to. For an argument list the same holds of \<^verbatim>\<open>Popen(cmd, shell=False)\<close>.
\<close>

theorem invocation_mode_follows_cmd:
  "(launch (CmdStr s) True = Popen env (CmdStr s) True \<longrightarrow>
      get_command_version_string (env\<lparr>Popen := launch\<rparr>) (CmdStr s) regexp prefix suffix
          use_stderr encoding raise_on_error
        = get_command_version_string env (CmdStr s) regexp prefix suffix use_stderr encoding
            raise_on_error)
   \<and> (Popen env (CmdStr s) True = Inl ex \<longrightarrow>
      get_command_version_string env (CmdStr s) regexp prefix suffix use_stderr encoding True
        = Inl ex)
   \<and> (launch (CmdList args) False = Popen env (CmdList args) False \<longrightarrow>
      get_command_version_string (env\<lparr>Popen := launch\<rparr>) (CmdList args) regexp prefix suffix
          use_stderr encoding raise_on_error
        = get_command_version_string env (CmdList args) regexp prefix suffix use_stderr
            encoding raise_on_error)
   \<and> (Popen env (CmdList args) False = Inl ex \<longrightarrow>
      get_command_version_string env (CmdList args) regexp prefix suffix use_stderr encoding
          True
        = Inl ex)"
  by (simp add: get_command_version_string_def probe_Popen_cong probe_launch_failed on_error_Inl)

text \<open>On the sample host the string \<^verbatim>\<open>tool --version\<close> can only be run by a shell, and the
  call finds the version even where every launch without a shell fails; the list
  \<^verbatim>\<open>['tool', '--version']\<close> is run even where every launch through a shell fails.\<close>

theorem invocation_mode_follows_cmd_witness:
  "Popen sample_host (CmdStr ''tool --version'') True = Inr 1
   \<and> Popen sample_host (CmdStr ''tool --version'') False
       = Inl (OSError ''[Errno 2] No such file or directory'')
   \<and> get_command_version_string
       (sample_host\<lparr>Popen := \<lambda>cmd shell. if shell then Popen sample_host cmd shell
                                           else Inl (OSError ''not launched'')\<rparr>)
       (CmdStr ''tool --version'') example_pattern ''tool '' [] None ''ascii'' True
       = Inr (Some ''tool 2.3.1'')
   \<and> get_command_version_string
       (sample_host\<lparr>Popen := \<lambda>cmd shell. if shell then Inl (OSError ''not launched'')
                                           else Popen sample_host cmd shell\<rparr>)
       (CmdList [''tool'', ''--version'']) example_pattern ''tool '' [] None ''ascii'' True
       = Inr (Some ''tool 2.3.1'')"
proof -
  have modes: "Popen sample_host (CmdStr ''tool --version'') True = Inr 1
      \<and> Popen sample_host (CmdStr ''tool --version'') False
        = Inl (OSError ''[Errno 2] No such file or directory'')"
    by code_simp
  have as_string: "get_command_version_string sample_host (CmdStr ''tool --version'')
      example_pattern ''tool '' [] None ''ascii'' True = Inr (Some ''tool 2.3.1'')"
    by code_simp
  have as_list: "get_command_version_string sample_host (CmdList [''tool'', ''--version''])
      example_pattern ''tool '' [] None ''ascii'' True = Inr (Some ''tool 2.3.1'')"
    by code_simp
  note mode = invocation_mode_follows_cmd [where env = sample_host and regexp = example_pattern
      and prefix = "''tool ''" and suffix = "[]" and use_stderr = None
      and encoding = "''ascii''" and raise_on_error = True]
  have shell: "get_command_version_string
       (sample_host\<lparr>Popen := \<lambda>cmd shell. if shell then Popen sample_host cmd shell
                                           else Inl (OSError ''not launched'')\<rparr>)
       (CmdStr ''tool --version'') example_pattern ''tool '' [] None ''ascii'' True
       = Inr (Some ''tool 2.3.1'')"
    using mode [where s = "''tool --version''"
        and launch = "\<lambda>cmd shell. if shell then Popen sample_host cmd shell
                                           else Inl (OSError ''not launched'')",
        THEN conjunct1] as_string
    by simp
  have direct: "get_command_version_string
       (sample_host\<lparr>Popen := \<lambda>cmd shell. if shell then Inl (OSError ''not launched'')
                                           else Popen sample_host cmd shell\<rparr>)
       (CmdList [''tool'', ''--version'']) example_pattern ''tool '' [] None ''ascii'' True
       = Inr (Some ''tool 2.3.1'')"
    using mode [where args = "[''tool'', ''--version'']"
        and launch = "\<lambda>cmd shell. if shell then Inl (OSError ''not launched'')
                                           else Popen sample_host cmd shell",
        THEN conjunct2, THEN conjunct2, THEN conjunct1] as_list
    by simp
  from modes shell direct show ?thesis
    by blast
qed

section \<open>Properties of the module's top level\<close>

text \<open>The probes never raise, and they neither read nor change the binding of
  \<^verbatim>\<open>RRuntimeError\<close>.\<close>

lemma run_probes_never_raises: "fst (run_probes env probes ns) = None"
proof (induction probes arbitrary: ns)
  case Nil
  show ?case by simp
next
  case (Cons spec probes)
  obtain key cmd regexp prefix where spec: "spec = (key, cmd, regexp, prefix)"
    by (cases spec) auto
  obtain r where "get_command_version_string env cmd regexp prefix [] None
      (getdefaultencoding env) False = Inr r"
    using on_error_False by (auto simp: get_command_version_string_def)
  with Cons.IH spec show ?case by simp
qed

lemma run_probes_shape:
  "run_probes env probes ns = (None, snd (run_probes env probes ns))"
  using run_probes_never_raises [of env probes ns] by (simp add: prod_eq_iff)

lemma run_probes_bound_kept:
  "RRuntimeError_bound (snd (run_probes env probes ns)) = RRuntimeError_bound ns"
proof (induction probes arbitrary: ns)
  case Nil
  show ?case by simp
next
  case (Cons spec probes)
  obtain key cmd regexp prefix where spec: "spec = (key, cmd, regexp, prefix)"
    by (cases spec) auto
  with Cons.IH show ?case by (simp split: sum.split)
qed

lemma bound_after_versions:
  "ns\<lparr>RRuntimeError_bound := b, SOFTWARE_VERSIONS := t\<rparr>
     = ns\<lparr>SOFTWARE_VERSIONS := t, RRuntimeError_bound := b\<rparr>"
  by (cases ns) simp

lemma bound_after_ascp_path:
  "ns\<lparr>RRuntimeError_bound := b, ascp_path := a\<rparr>
     = ns\<lparr>ascp_path := a, RRuntimeError_bound := b\<rparr>"
  by (cases ns) simp

lemma run_probes_bound_update:
  "snd (run_probes env probes (ns\<lparr>RRuntimeError_bound := b\<rparr>))
     = (snd (run_probes env probes ns))\<lparr>RRuntimeError_bound := b\<rparr>"
proof (induction probes arbitrary: ns)
  case Nil
  show ?case by simp
next
  case (Cons spec probes)
  obtain key cmd regexp prefix where spec: "spec = (key, cmd, regexp, prefix)"
    by (cases spec) auto
  have "snd (run_probes env probes
          (ns\<lparr>RRuntimeError_bound := b,
              SOFTWARE_VERSIONS := (SOFTWARE_VERSIONS ns)(key \<mapsto> v)\<rparr>))
      = (snd (run_probes env probes
          (ns\<lparr>SOFTWARE_VERSIONS := (SOFTWARE_VERSIONS ns)(key \<mapsto> v)\<rparr>)))
          \<lparr>RRuntimeError_bound := b\<rparr>" for v
    using Cons.IH [of "ns\<lparr>SOFTWARE_VERSIONS := (SOFTWARE_VERSIONS ns)(key \<mapsto> v)\<rparr>"]
    by (simp add: bound_after_versions)
  with spec show ?case by (simp split: sum.split)
qed

lemma reset_eq:
  "RRuntimeError_bound ns = RRuntimeError_bound (ns' :: namespace) \<Longrightarrow>
   (ns :: namespace)\<lparr>ascp_path := a, SOFTWARE_VERSIONS := t\<rparr> = ns'\<lparr>ascp_path := a, SOFTWARE_VERSIONS := t\<rparr>"
  by (cases ns, cases ns') simp

lemma module_exec_after_probes:
  "module_exec env ns =
     (case r_block env ''R'' [] ''R.version$version.string''
             (snd (run_probes env (tool_probes (find_ascp env))
                (ns\<lparr>ascp_path := find_ascp env, SOFTWARE_VERSIONS := Map.empty\<rparr>))) of
        (Some ex, ns4) \<Rightarrow> (Some ex, ns4)
      | (None, ns4) \<Rightarrow>
          r_block env ''BIOC'' ''Bioconductor ''
            ''as.character(BiocInstaller::biocVersion())'' ns4)"
proof -
  let ?ns2 = "ns\<lparr>ascp_path := find_ascp env, SOFTWARE_VERSIONS := Map.empty\<rparr>"
  have "module_exec env ns =
     (case run_probes env (tool_probes (find_ascp env)) ?ns2 of
        (Some ex, ns3) \<Rightarrow> (Some ex, ns3)
      | (None, ns3) \<Rightarrow>
     (case r_block env ''R'' [] ''R.version$version.string'' ns3 of
        (Some ex, ns4) \<Rightarrow> (Some ex, ns4)
      | (None, ns4) \<Rightarrow>
          r_block env ''BIOC'' ''Bioconductor ''
            ''as.character(BiocInstaller::biocVersion())'' ns4))"
    by (simp add: module_exec_def Let_def)
  also have "\<dots> = (case r_block env ''R'' [] ''R.version$version.string''
             (snd (run_probes env (tool_probes (find_ascp env)) ?ns2)) of
        (Some ex, ns4) \<Rightarrow> (Some ex, ns4)
      | (None, ns4) \<Rightarrow>
          r_block env ''BIOC'' ''Bioconductor ''
            ''as.character(BiocInstaller::biocVersion())'' ns4)"
    by (subst run_probes_shape) simp
  finally show ?thesis .
qed

lemma module_exec_reads_bound_only:
  assumes "RRuntimeError_bound ns = RRuntimeError_bound ns'"
  shows "module_exec env ns = module_exec env ns'"
  by (simp only: module_exec_after_probes reset_eq [OF assms])

text \<open>When an import fails, nothing binds the name.\<close>

lemma r_block_bound_kept:
  assumes "import_r env \<noteq> None \<or> import_RRuntimeError env \<noteq> None"
  shows "RRuntimeError_bound (snd (r_block env key prefix code ns)) = RRuntimeError_bound ns"
  using assms
  by (auto simp: r_block_def import_rpy2_def except_RRuntimeError_def split: option.split)

lemma module_exec_bound_kept:
  assumes "import_r env \<noteq> None \<or> import_RRuntimeError env \<noteq> None"
  shows "RRuntimeError_bound (snd (module_exec env ns)) = RRuntimeError_bound ns"
proof -
  let ?ns3 = "snd (run_probes env (tool_probes (find_ascp env))
                (ns\<lparr>ascp_path := find_ascp env, SOFTWARE_VERSIONS := Map.empty\<rparr>))"
  let ?r = "r_block env ''R'' [] ''R.version$version.string'' ?ns3"
  have ns3: "RRuntimeError_bound ?ns3 = RRuntimeError_bound ns"
    by (simp add: run_probes_bound_kept)
  have r: "RRuntimeError_bound (snd ?r) = RRuntimeError_bound ns"
    using r_block_bound_kept [OF assms, of "''R''" "[]" "''R.version$version.string''" ?ns3] ns3
    by simp
  show ?thesis
  proof (cases ?r)
    case (Pair e ns4)
    with r have ns4: "RRuntimeError_bound ns4 = RRuntimeError_bound ns"
      by simp
    show ?thesis
    proof (cases e)
      case None
      with Pair ns4 r_block_bound_kept [OF assms, of "''BIOC''" "''Bioconductor ''"
          "''as.character(BiocInstaller::biocVersion())''" ns4]
      show ?thesis by (simp add: module_exec_after_probes)
    next
      case (Some ex)
      with Pair ns4 show ?thesis by (simp add: module_exec_after_probes)
    qed
  qed
qed

text \<open>When both imports succeed, the first block binds the name before anything reads it.\<close>

lemma r_block_binds:
  assumes "import_r env = None" and "import_RRuntimeError env = None"
  shows "r_block env key prefix code (ns\<lparr>RRuntimeError_bound := b\<rparr>)
           = r_block env key prefix code ns"
  using assms by (simp add: r_block_def import_rpy2_def)

lemma module_exec_binds:
  assumes "import_r env = None" and "import_RRuntimeError env = None"
  shows "module_exec env (ns\<lparr>RRuntimeError_bound := b\<rparr>) = module_exec env ns"
proof -
  have swap: "ns\<lparr>RRuntimeError_bound := b, ascp_path := a, SOFTWARE_VERSIONS := t\<rparr>
      = ns\<lparr>ascp_path := a, SOFTWARE_VERSIONS := t, RRuntimeError_bound := b\<rparr>" for a t
    by (simp add: bound_after_ascp_path bound_after_versions)
  show ?thesis
    by (simp only: module_exec_after_probes swap run_probes_bound_update
        r_block_binds [OF assms])
qed

text \<open>
  C8: building the table is idempotent. Executing the module's top level again, in the
  namespace the first execution left and in the same environment, ends with the same
  exception (or none) and the same namespace, so \<^verbatim>\<open>SOFTWARE_VERSIONS\<close> is the same mapping.
\<close>

theorem module_exec_idempotent:
  "module_exec env (snd (module_exec env ns)) = module_exec env ns"
proof (cases "import_r env = None \<and> import_RRuntimeError env = None")
  case True
  let ?ns' = "snd (module_exec env ns)"
  have "module_exec env ?ns'
      = module_exec env (?ns'\<lparr>RRuntimeError_bound := RRuntimeError_bound ns\<rparr>)"
    using True by (simp add: module_exec_binds)
  also have "\<dots> = module_exec env ns"
    by (rule module_exec_reads_bound_only) simp
  finally show ?thesis .
next
  case False
  then have "RRuntimeError_bound (snd (module_exec env ns)) = RRuntimeError_bound ns"
    by (intro module_exec_bound_kept) simp
  then show ?thesis
    by (rule module_exec_reads_bound_only)
qed

section \<open>Properties of R_package_version\<close>

text \<open>
  C7: for a package whose version the registry of installed packages gives as NA,
  \<^verbatim>\<open>R_package_version\<close> returns None and does not raise; when the imports succeed, the
  body raises the \<^verbatim>\<open>ValueError\<close>, which the handler catches.
\<close>

theorem R_package_version_NA_is_None:
  "(installed_version env pkgname = Inr NA_character \<longrightarrow>
      R_package_version env pkgname = Inr None)
   \<and> (import_r env = None \<and> import_RRuntimeError env = None
        \<and> installed_version env pkgname = Inr NA_character \<longrightarrow>
      R_package_version_body env pkgname
        = Inl (ValueError (''Could not determine package version for '' @ py_repr pkgname
                 @ ''. Maybe the package is not installed?'')))"
  by (simp add: R_package_version_def R_package_version_body_def split: option.split)

theorem R_package_version_NA_is_None_witness:
  "installed_version sample_host ''nonexistent-package'' = Inr NA_character
   \<and> R_package_version sample_host ''nonexistent-package'' = Inr None
   \<and> R_package_version_body sample_host ''nonexistent-package''
       = Inl (ValueError (''Could not determine package version for ''
                @ py_repr ''nonexistent-package'' @ ''. Maybe the package is not installed?''))
   \<and> R_package_version sample_host ''limma'' = Inr (Some ''limma 3.30.0'')"
proof -
  have r: "import_r sample_host = None \<and> import_RRuntimeError sample_host = None"
    by code_simp
  have na: "installed_version sample_host ''nonexistent-package'' = Inr NA_character"
    by code_simp
  have installed: "R_package_version sample_host ''limma'' = Inr (Some ''limma 3.30.0'')"
    by code_simp
  note none = R_package_version_NA_is_None [THEN conjunct1, rule_format, OF na]
  note raised = R_package_version_NA_is_None [THEN conjunct2, rule_format,
      OF conjI [OF r [THEN conjunct1] conjI [OF r [THEN conjunct2] na]]]
  from na none raised installed show ?thesis
    by blast
qed

section \<open>Properties of list-python-modules.py\<close>

lemma imports_of_eq:
  "imports_of instructions
     = {argval x |x. x \<in> set instructions \<and> opname x = ''IMPORT_NAME''}"
  by (auto simp: imports_of_def)

lemma finite_imports_of: "finite (imports_of instructions)"
  by (simp add: imports_of_def)

text \<open>
  C5: when the files are found and read and the combined text disassembles, the script
  prints the names that are arguments of \<^verbatim>\<open>IMPORT_NAME\<close> instructions of the combined text:
  each once, in lexicographic order, one per line.
\<close>

theorem modules_printed_sorted_unique:
  assumes "fulltext env = Inr combined"
    and "get_instructions env combined = Inr instructions"
  shows "\<exists>names. list_python_modules env = Inr (str_join [newline] names @ [newline])
           \<and> sorted names \<and> distinct names
           \<and> set names = {argval x |x. x \<in> set instructions \<and> opname x = ''IMPORT_NAME''}"
proof (intro exI conjI)
  show "list_python_modules env
      = Inr (str_join [newline] (sorted_list_of_set (imports_of instructions)) @ [newline])"
    using assms by (simp add: list_python_modules_def)
  show "sorted (sorted_list_of_set (imports_of instructions))"
    by simp
  show "distinct (sorted_list_of_set (imports_of instructions))"
    by simp
  show "set (sorted_list_of_set (imports_of instructions))
      = {argval x |x. x \<in> set instructions \<and> opname x = ''IMPORT_NAME''}"
    using finite_imports_of [of instructions] by (simp add: imports_of_eq)
qed

text \<open>Two source files importing \<^verbatim>\<open>os\<close>, \<^verbatim>\<open>sys\<close> and \<^verbatim>\<open>os\<close> again, and a workflow file
  whose compiled form imports \<^verbatim>\<open>sys\<close>: the script prints \<^verbatim>\<open>os\<close> and \<^verbatim>\<open>sys\<close>.\<close>

theorem modules_printed_sorted_unique_witness:
  "fulltext sample_host
     = Inr (''import os'' @ newline # ''import sys'' @ newline # newline # ''import os''
            @ newline # newline # ''import sys'' @ [newline, newline])
   \<and> list_python_modules sample_host = Inr (''os'' @ newline # ''sys'' @ [newline])
   \<and> (\<exists>names. list_python_modules sample_host = Inr (str_join [newline] names @ [newline])
         \<and> sorted names \<and> distinct names \<and> set names = {''os'', ''sys''})"
proof -
  let ?combined = "''import os'' @ newline # ''import sys'' @ newline # newline # ''import os''
            @ newline # newline # ''import sys'' @ [newline, newline]"
  let ?instructions = "[
      \<lparr>opname = ''LOAD_CONST'', argval = ''0''\<rparr>, \<lparr>opname = ''LOAD_CONST'', argval = ''None''\<rparr>,
      \<lparr>opname = ''IMPORT_NAME'', argval = ''os''\<rparr>, \<lparr>opname = ''STORE_NAME'', argval = ''os''\<rparr>,
      \<lparr>opname = ''LOAD_CONST'', argval = ''0''\<rparr>, \<lparr>opname = ''LOAD_CONST'', argval = ''None''\<rparr>,
      \<lparr>opname = ''IMPORT_NAME'', argval = ''sys''\<rparr>, \<lparr>opname = ''STORE_NAME'', argval = ''sys''\<rparr>,
      \<lparr>opname = ''LOAD_CONST'', argval = ''0''\<rparr>, \<lparr>opname = ''LOAD_CONST'', argval = ''None''\<rparr>,
      \<lparr>opname = ''IMPORT_NAME'', argval = ''os''\<rparr>, \<lparr>opname = ''STORE_NAME'', argval = ''os''\<rparr>,
      \<lparr>opname = ''LOAD_CONST'', argval = ''0''\<rparr>, \<lparr>opname = ''LOAD_CONST'', argval = ''None''\<rparr>,
      \<lparr>opname = ''IMPORT_NAME'', argval = ''sys''\<rparr>, \<lparr>opname = ''STORE_NAME'', argval = ''sys''\<rparr>,
      \<lparr>opname = ''LOAD_CONST'', argval = ''None''\<rparr>,
      \<lparr>opname = ''RETURN_VALUE'', argval = ''None''\<rparr>]"
  have combined: "fulltext sample_host = Inr ?combined"
    by code_simp
  have instructions: "get_instructions sample_host ?combined = Inr ?instructions"
    by code_simp
  have printed: "list_python_modules sample_host = Inr (''os'' @ newline # ''sys'' @ [newline])"
    by code_simp
  have names: "{argval x |x. x \<in> set ?instructions \<and> opname x = ''IMPORT_NAME''}
      = {''os'', ''sys''}"
    unfolding imports_of_eq [symmetric] by (auto simp: imports_of_def)
  from modules_printed_sorted_unique [OF combined instructions] names combined printed
  show ?thesis
    by simp
qed

text \<open>
  C6 (a pattern that no file matches gives an empty collection of candidates, and the run
  completes): the script does otherwise. When \<^verbatim>\<open>find\<close> prints nothing, the list of candidates
  is \<^verbatim>\<open>''.strip().split('\n')\<close>, that is \<^verbatim>\<open>['']\<close>: one candidate, the empty name, for either
  pattern. For the source pattern the loop then calls \<^verbatim>\<open>open('')\<close>, and the exception that
  call raises ends the run.
\<close>

theorem no_match_leaves_one_empty_name:
  "(check_output env command = Inr [] \<and> decode env [] (getdefaultencoding env) = Inr [] \<longrightarrow>
      list_files env command = Inr [[]])
   \<and> (check_output env find_python_files = Inr []
        \<and> decode env [] (getdefaultencoding env) = Inr []
        \<and> list_files env find_snakefiles = Inr snakefiles
        \<and> open_read env [] = Inl ex \<longrightarrow>
      list_python_modules env = Inl ex)"
  by (simp add: list_files_def str_strip_def list_python_modules_def fulltext_def)

text \<open>In the empty directory both patterns give the one-element list, and the run ends
  with the \<^verbatim>\<open>FileNotFoundError\<close> of \<^verbatim>\<open>open('')\<close>.\<close>

theorem no_match_leaves_one_empty_name_witness:
  "check_output empty_directory_host find_python_files = Inr []
   \<and> list_files empty_directory_host find_python_files = Inr [[]]
   \<and> list_files empty_directory_host find_snakefiles = Inr [[]]
   \<and> list_python_modules empty_directory_host
       = Inl (OSError (''[Errno 2] No such file or directory: '' @ [squote, squote]))"
proof -
  have found: "check_output empty_directory_host find_python_files = Inr []
      \<and> decode empty_directory_host [] (getdefaultencoding empty_directory_host) = Inr []"
    by code_simp
  have found_snake: "check_output empty_directory_host find_snakefiles = Inr []
      \<and> decode empty_directory_host [] (getdefaultencoding empty_directory_host) = Inr []"
    by code_simp
  have missing: "open_read empty_directory_host []
      = Inl (OSError (''[Errno 2] No such file or directory: '' @ [squote, squote]))"
    by code_simp
  note one = no_match_leaves_one_empty_name [where env = empty_directory_host, THEN conjunct1,
      rule_format]
  note py = one [OF found]
  note snake = one [OF found_snake]
  note fails = no_match_leaves_one_empty_name [where env = empty_directory_host,
      THEN conjunct2, rule_format,
      OF conjI [OF found [THEN conjunct1] conjI [OF found [THEN conjunct2]
        conjI [OF snake missing]]]]
  from found py snake fails show ?thesis
    by blast
qed

end
